theory Spec2Isabelle
  imports Complex_Main
begin

section \<open>Symbolic Keras graphs\<close>

text \<open>
  The repository builds its networks by calling the Keras functional API: a layer object
  is constructed from its configuration and then called on tensors, which yields new
  tensors. The graph that such calls build is modelled as a term: a tensor records the
  layer that produced it, the tensors the layer was called on and the position of the
  tensor among the outputs of that call. A layer is identified with its class, its name
  and its configuration; a layer constructed without a name (Keras then generates one)
  has the name \<open>None\<close>. Shape inference, weights and the numerical
  behaviour of the layers are not part of the model.
\<close>

datatype error =
    ValueError string
  | IndexError string
  | AttributeError string
  | TypeError string

datatype initializer =
    GlorotUniform
  | RandomNormal real real
  | Zeros
  | PriorProbability real

datatype layer_config =
    InputLayer "int option list"
  | Conv2D int int int string "string option" initializer initializer
  | Permute "nat list"
  | Reshape "int list"
  | Activation string
  | CoordinateChannel2D
  | UpsampleLike
  | Add
  | Concatenate int
  | Anchors real real "real list" "real list"
  | RegressBoxes
  | ClipBoxes
  | FilterDetections bool bool real int real
  | Backbone string

text \<open>
  The arguments of \<open>Conv2D\<close> are, in this order: filters, kernel size, strides,
  padding, activation, kernel initializer and bias initializer. \<open>Anchors\<close>
  carries size, stride, ratios and scales; \<open>FilterDetections\<close> carries nms,
  class_specific_filter, score_threshold, max_detections and nms_threshold.
  \<open>Backbone\<close> stands for a layer of the external backbone network, of which
  only the class name is kept.
\<close>

datatype tensor = Tensor layer "tensor list" nat
  and layer = Layer "string option" layer_config | Submodel model
  and model = Model string "tensor list" "tensor list"

primrec model_name :: "model \<Rightarrow> string" where
  "model_name (Model name inputs outputs) = name"

primrec model_inputs :: "model \<Rightarrow> tensor list" where
  "model_inputs (Model name inputs outputs) = inputs"

primrec model_outputs :: "model \<Rightarrow> tensor list" where
  "model_outputs (Model name inputs outputs) = outputs"

primrec layer_name :: "layer \<Rightarrow> string option" where
  "layer_name (Layer name config) = name"
| "layer_name (Submodel m) = Some (model_name m)"

primrec producer :: "tensor \<Rightarrow> layer" where
  "producer (Tensor l ins k) = l"

primrec operands :: "tensor \<Rightarrow> tensor list" where
  "operands (Tensor l ins k) = ins"

text \<open>Calling a layer with one output on a list of tensors.\<close>

definition call :: "layer \<Rightarrow> tensor list \<Rightarrow> tensor" where
  "call l ins = Tensor l ins 0"

text \<open>\<open>keras.layers.Input(shape=...)\<close>: a fresh input layer and its tensor.\<close>

definition Input :: "int option list \<Rightarrow> tensor" where
  "Input shape = call (Layer None (InputLayer shape)) []"

text \<open>\<open>'{}'.format(i)\<close> for a loop index: the decimal digits of \<open>i\<close>.\<close>

fun str :: "nat \<Rightarrow> string" where
  "str n = (if n < 10 then [''0123456789'' ! n]
            else str (n div 10) @ [''0123456789'' ! (n mod 10)])"

declare str.simps [simp del]

section \<open>The prediction heads (models/retinanet.py)\<close>

text \<open>
  The stack of convolutions that every head starts with: the loop
  \<open>for i, fs in enumerate(feature_sizes): outputs = Conv2D(...)(outputs)\<close>.
  The kernel initializer and the bias initializer are the same in all heads.
\<close>

definition conv_stack :: "string \<Rightarrow> string option \<Rightarrow> int list \<Rightarrow> tensor \<Rightarrow> tensor" where
  "conv_stack prefix activation feature_sizes outputs =
     fold (\<lambda>(i, fs) outputs.
             call (Layer (Some (prefix @ str i))
                     (Conv2D fs 3 1 ''same'' activation (RandomNormal 0 (1 / 100)) Zeros))
               [outputs])
          (enumerate 0 feature_sizes) outputs"

definition default_classification_model ::
  "string \<Rightarrow> int \<Rightarrow> int \<Rightarrow> int \<Rightarrow> real \<Rightarrow> int list \<Rightarrow> string \<Rightarrow> model" where
  "default_classification_model image_data_format num_classes num_anchors
       pyramid_feature_size prior_probability feature_sizes name =
     (let inputs = (if image_data_format = ''channels_first''
                    then Input [Some pyramid_feature_size, None, None]
                    else Input [None, None, Some pyramid_feature_size]);
          outputs = inputs;
          outputs = conv_stack ''pyramid_classification_'' (Some ''relu'') feature_sizes outputs;
          outputs = call (Layer (Some ''pyramid_classification'')
                            (Conv2D (num_classes * num_anchors) 3 1 ''same'' None
                               Zeros (PriorProbability prior_probability)))
                      [outputs];
          outputs = (if image_data_format = ''channels_first''
                     then call (Layer (Some ''pyramid_classification_permute'') (Permute [2, 3, 1]))
                            [outputs]
                     else outputs);
          outputs = call (Layer (Some ''pyramid_classification_reshape'')
                            (Reshape [- 1, num_classes]))
                      [outputs];
          outputs = call (Layer (Some ''pyramid_classification_sigmoid'') (Activation ''sigmoid''))
                      [outputs]
      in Model name [inputs] [outputs])"

definition default_regression_model ::
  "string \<Rightarrow> int \<Rightarrow> int \<Rightarrow> int list \<Rightarrow> string \<Rightarrow> model" where
  "default_regression_model image_data_format num_anchors pyramid_feature_size
       feature_sizes name =
     (let inputs = (if image_data_format = ''channels_first''
                    then Input [Some pyramid_feature_size, None, None]
                    else Input [None, None, Some pyramid_feature_size]);
          outputs = inputs;
          outputs = conv_stack ''pyramid_regression_'' (Some ''relu'') feature_sizes outputs;
          outputs = call (Layer (Some ''pyramid_regression'')
                            (Conv2D (num_anchors * 4) 3 1 ''same'' None
                               (RandomNormal 0 (1 / 100)) Zeros))
                      [outputs];
          outputs = (if image_data_format = ''channels_first''
                     then call (Layer (Some ''pyramid_regression_permute'') (Permute [2, 3, 1]))
                            [outputs]
                     else outputs);
          outputs = call (Layer (Some ''pyramid_regression_reshape'') (Reshape [- 1, 4]))
                      [outputs]
      in Model name [inputs] [outputs])"

definition CommonPFModel ::
  "int \<Rightarrow> int \<Rightarrow> int list \<Rightarrow> string \<Rightarrow> string \<Rightarrow> bool \<Rightarrow> model" where
  "CommonPFModel num_anchors pyramid_feature_size feature_sizes name activation coordconv =
     (let inputs = Input [None, None, Some pyramid_feature_size];
          outputs = inputs;
          outputs = (if coordconv then call (Layer None CoordinateChannel2D) [inputs]
                     else outputs);
          outputs = conv_stack ''pyramid_joint_'' (Some activation) feature_sizes outputs
      in Model name [inputs] [outputs])"

definition RegrModel ::
  "int \<Rightarrow> int \<Rightarrow> int list \<Rightarrow> string \<Rightarrow> bool \<Rightarrow> string \<Rightarrow> model" where
  "RegrModel num_anchors pyramid_feature_size feature_sizes name coordconv activation =
     (let inputs = Input [None, None, Some pyramid_feature_size];
          outputs = inputs;
          outputs = (if coordconv then call (Layer None CoordinateChannel2D) [inputs]
                     else outputs);
          outputs = conv_stack ''pyramid_regression_'' (Some activation) feature_sizes outputs;
          outputs = call (Layer (Some ''pyramid_regression'')
                            (Conv2D (num_anchors * 4) 3 1 ''same'' None
                               (RandomNormal 0 (1 / 100)) Zeros))
                      [outputs];
          outputs = call (Layer (Some ''pyramid_regression_reshape'') (Reshape [- 1, 4]))
                      [outputs]
      in Model name [inputs] [outputs])"

definition ClassModel ::
  "int \<Rightarrow> int \<Rightarrow> int \<Rightarrow> real \<Rightarrow> int list \<Rightarrow> string \<Rightarrow> string \<Rightarrow> bool \<Rightarrow> bool \<Rightarrow> model" where
  "ClassModel num_classes num_anchors pyramid_feature_size prior_probability feature_sizes
       name activation final_activation coordconv =
     (let inputs = Input [None, None, Some pyramid_feature_size];
          outputs = inputs;
          outputs = (if coordconv then call (Layer None CoordinateChannel2D) [inputs]
                     else outputs);
          outputs = conv_stack ''pyramid_classification_'' (Some activation) feature_sizes outputs;
          outputs = call (Layer (Some ''pyramid_classification'')
                            (Conv2D (num_classes * num_anchors) 3 1 ''same'' None
                               Zeros (PriorProbability prior_probability)))
                      [outputs];
          outputs = call (Layer (Some ''pyramid_classification_reshape'')
                            (Reshape [- 1, num_classes]))
                      [outputs];
          outputs = (if final_activation
                     then call (Layer (Some ''pyramid_classification_sigmoid'')
                                  (Activation ''sigmoid''))
                            [outputs]
                     else outputs)
      in Model name [inputs] [outputs])"


text \<open>Python's \<open>xs[i]\<close> for \<open>i \<ge> 0\<close>, and \<open>xs[-1]\<close>.\<close>

definition py_index :: "'a list \<Rightarrow> nat \<Rightarrow> error + 'a" where
  "py_index xs i =
     (if i < length xs then Inr (xs ! i) else Inl (IndexError ''list index out of range''))"

definition py_last :: "'a list \<Rightarrow> error + 'a" where
  "py_last xs =
     (case xs of [] \<Rightarrow> Inl (IndexError ''list index out of range'') | _ \<Rightarrow> Inr (last xs))"

text \<open>
  A list comprehension whose elements may raise: the elements are evaluated from left to
  right and the first exception ends the evaluation.
\<close>

fun collect :: "(error + 'a) list \<Rightarrow> error + 'a list" where
  "collect [] = Inr []"
| "collect (x # xs) =
     (case x of
        Inl e \<Rightarrow> Inl e
      | Inr v \<Rightarrow> (case collect xs of Inl e \<Rightarrow> Inl e | Inr vs \<Rightarrow> Inr (v # vs)))"

record AnchorParameters =
  sizes :: "real list"
  strides :: "real list"
  ratios :: "real list"
  scales :: "real list"

definition AnchorParameters_num_anchors :: "AnchorParameters \<Rightarrow> int" where
  "AnchorParameters_num_anchors self = int (length (ratios self)) * int (length (scales self))"

definition AnchorParameters_default :: AnchorParameters where
  "AnchorParameters_default =
     \<lparr> sizes = [32, 64, 128, 256, 512],
       strides = [8, 16, 32, 64, 128],
       ratios = [1 / 2, 1, 2],
       scales = [2 powr 0, 2 powr (1 / 3), 2 powr (2 / 3)] \<rparr>"

definition joint_submodels ::
  "int \<Rightarrow> int \<Rightarrow> int \<Rightarrow> int list \<Rightarrow> int list \<Rightarrow> int list \<Rightarrow> bool
     \<Rightarrow> error + (string \<times> model) list" where
  "joint_submodels num_classes num_anchors pyramid_feature_size common_feature_sizes
       class_feature_sizes regr_feature_sizes coordconv =
     (let inputs = Input [None, None, Some pyramid_feature_size];
          common_out =
            call (Submodel (CommonPFModel num_classes 256 common_feature_sizes
                              ''common_submodel'' ''relu'' coordconv))
              [inputs]
      in case py_last common_feature_sizes of
           Inl e \<Rightarrow> Inl e
         | Inr last_size \<Rightarrow>
             (let regr_out =
                    call (Submodel (RegrModel num_anchors last_size regr_feature_sizes
                                      ''regression_submodel'' False ''relu''))
                      [common_out];
                  class_out =
                    call (Submodel (ClassModel num_classes num_anchors last_size (1 / 100)
                                      class_feature_sizes ''classification_submodel'' ''relu''
                                      True False))
                      [common_out]
              in Inr [(''regression'', Model ''regr_model'' [inputs] [regr_out]),
                      (''classification'', Model ''class_model'' [inputs] [class_out])]))"

definition default_submodels ::
  "string \<Rightarrow> int \<Rightarrow> int \<Rightarrow> int list \<Rightarrow> int list \<Rightarrow> (string \<times> model) list" where
  "default_submodels image_data_format num_classes num_anchors class_feature_sizes
       regr_feature_sizes =
     [(''regression'',
         default_regression_model image_data_format num_anchors 256 regr_feature_sizes
           ''regression_submodel''),
      (''classification'',
         default_classification_model image_data_format num_classes num_anchors 256 (1 / 100)
           class_feature_sizes ''classification_submodel'')]"

section \<open>Assembling the pyramid (models/retinanet.py)\<close>

text \<open>
  \<open>__build_model_pyramid\<close>. \<open>keras.models.clone_model\<close> is a function of
  Keras and is a parameter here. In the branch for \<open>share = False\<close> the loop
  keeps the list \<open>inputs\<close> and the flag \<open>new\<close>; the source assigns
  \<open>new\<close> once, before the loop.
\<close>

definition build_model_pyramid ::
  "(model \<Rightarrow> model) \<Rightarrow> string \<Rightarrow> model \<Rightarrow> tensor list \<Rightarrow> bool \<Rightarrow> tensor" where
  "build_model_pyramid clone_model name model features share =
     (if share
      then call (Layer (Some name) (Concatenate 1))
             (map (\<lambda>f. call (Submodel model) [f]) features)
      else
        (let inputs = [];
             new = True;
             (inputs, new) =
               fold (\<lambda>f (inputs, new).
                       (let mo = (if new then model else clone_model model)
                        in (inputs @ [call (Submodel mo) [f]], new)))
                    features (inputs, new)
         in call (Layer (Some name) (Concatenate 1)) inputs))"

definition build_pyramid ::
  "(model \<Rightarrow> model) \<Rightarrow> (string \<times> model) list \<Rightarrow> tensor list \<Rightarrow> bool \<Rightarrow> tensor list" where
  "build_pyramid clone_model models features share =
     map (\<lambda>(n, m). build_model_pyramid clone_model n m features share) models"

text \<open>
  \<open>__build_anchors\<close>: one \<open>Anchors\<close> layer per feature, with the size and
  the stride read at the position of the feature (\<open>anchors_at\<close> is the element of
  the list comprehension). The class \<open>Anchors\<close> is defined
  in \<open>keras_retinanet.layers\<close>, which is not among the sources; its constructor
  is taken to accept every size, stride, ratios and scales, as section 4.1 of the
  specification describes it (no failure; empty ratios or scales give an empty output).
\<close>

definition anchors_at :: "AnchorParameters \<Rightarrow> nat \<Rightarrow> tensor \<Rightarrow> error + tensor" where
  "anchors_at anchor_parameters i f =
     (case py_index (sizes anchor_parameters) i of
        Inl e \<Rightarrow> Inl e
      | Inr size_i \<Rightarrow>
          (case py_index (strides anchor_parameters) i of
             Inl e \<Rightarrow> Inl e
           | Inr stride_i \<Rightarrow>
               Inr (call (Layer (Some (''anchors_'' @ str i))
                            (Anchors size_i stride_i (ratios anchor_parameters)
                               (scales anchor_parameters)))
                      [f])))"

definition build_anchors :: "AnchorParameters \<Rightarrow> tensor list \<Rightarrow> error + tensor" where
  "build_anchors anchor_parameters features =
     (case collect (map (\<lambda>(i, f). anchors_at anchor_parameters i f) (enumerate 0 features)) of
        Inl e \<Rightarrow> Inl e
      | Inr anchors \<Rightarrow> Inr (call (Layer (Some ''anchors'') (Concatenate 1)) anchors))"

text \<open>\<open>_create_pyramid_features\<close>, the default pyramid builder.\<close>

definition create_pyramid_features :: "tensor \<Rightarrow> tensor \<Rightarrow> tensor \<Rightarrow> int \<Rightarrow> tensor list" where
  "create_pyramid_features C3 C4 C5 feature_size =
     (let P5 = call (Layer (Some ''C5_reduced'')
                       (Conv2D feature_size 1 1 ''same'' None GlorotUniform Zeros)) [C5];
          P5_upsampled = call (Layer (Some ''P5_upsampled'') UpsampleLike) [P5, C4];
          P5 = call (Layer (Some ''P5'')
                       (Conv2D feature_size 3 1 ''same'' None GlorotUniform Zeros)) [P5];
          P4 = call (Layer (Some ''C4_reduced'')
                       (Conv2D feature_size 1 1 ''same'' None GlorotUniform Zeros)) [C4];
          P4 = call (Layer (Some ''P4_merged'') Add) [P5_upsampled, P4];
          P4_upsampled = call (Layer (Some ''P4_upsampled'') UpsampleLike) [P4, C3];
          P4 = call (Layer (Some ''P4'')
                       (Conv2D feature_size 3 1 ''same'' None GlorotUniform Zeros)) [P4];
          P3 = call (Layer (Some ''C3_reduced'')
                       (Conv2D feature_size 1 1 ''same'' None GlorotUniform Zeros)) [C3];
          P3 = call (Layer (Some ''P3_merged'') Add) [P4_upsampled, P3];
          P3 = call (Layer (Some ''P3'')
                       (Conv2D feature_size 3 1 ''same'' None GlorotUniform Zeros)) [P3];
          P6 = call (Layer (Some ''P6'')
                       (Conv2D feature_size 3 2 ''same'' None GlorotUniform Zeros)) [C5];
          P7 = call (Layer (Some ''C6_relu'') (Activation ''relu'')) [P6];
          P7 = call (Layer (Some ''P7'')
                       (Conv2D feature_size 3 2 ''same'' None GlorotUniform Zeros)) [P7]
      in [P3, P4, P5, P6, P7])"

text \<open>
  The argument \<open>submodels\<close> of \<open>RetinaNet\<close>: \<open>None\<close>, a string (as the
  training script passes it) or a list of named submodels (as the docstring describes it).
\<close>

datatype submodels_arg =
    SubmodelsNone
  | SubmodelsStr string
  | SubmodelsList "(string \<times> model) list"

text \<open>
  \<open>RetinaNet\<close>. The ambient \<open>keras.backend.image_data_format()\<close> and
  \<open>keras.models.clone_model\<close> are the first two parameters. The steps follow the
  source: the submodels are resolved (a list has no method \<open>startswith\<close>); the
  backbone layers are unpacked into exactly three tensors; the pyramid features are
  built; every submodel is run on every feature. A string that does not start with
  \<open>joint\<close> stays in \<open>submodels\<close>, and \<open>for n, m in models\<close> then
  iterates over its characters, none of which unpacks into a pair.
\<close>

definition RetinaNet ::
  "string \<Rightarrow> (model \<Rightarrow> model) \<Rightarrow> tensor list \<Rightarrow> tensor list \<Rightarrow> int \<Rightarrow> int
     \<Rightarrow> (tensor \<Rightarrow> tensor \<Rightarrow> tensor \<Rightarrow> tensor list) option \<Rightarrow> submodels_arg \<Rightarrow> string \<Rightarrow> bool
     \<Rightarrow> int list \<Rightarrow> int list \<Rightarrow> int list \<Rightarrow> bool \<Rightarrow> error + model" where
  "RetinaNet image_data_format clone_model inputs backbone_layers num_classes num_anchors
       create_pyramid_features_arg submodels name share_rpn class_feature_sizes
       regr_feature_sizes common_feature_sizes coordconv =
     (case (case submodels of
              SubmodelsNone \<Rightarrow>
                Inr (Inr (default_submodels image_data_format num_classes num_anchors
                            class_feature_sizes regr_feature_sizes))
            | SubmodelsStr s \<Rightarrow>
                (if take 5 s = ''joint''
                 then (case joint_submodels num_classes num_anchors 256 common_feature_sizes
                              class_feature_sizes regr_feature_sizes coordconv of
                         Inl e \<Rightarrow> Inl e
                       | Inr ms \<Rightarrow> Inr (Inr ms))
                 else Inr (Inl s))
            | SubmodelsList ms \<Rightarrow>
                Inl (AttributeError ''list object has no attribute startswith'')) of
        Inl e \<Rightarrow> Inl e
      | Inr submodels \<Rightarrow>
          (case backbone_layers of
             [C3, C4, C5] \<Rightarrow>
               (let features =
                      (case create_pyramid_features_arg of
                         None \<Rightarrow> create_pyramid_features C3 C4 C5 256
                       | Some create \<Rightarrow> create C3 C4 C5)
                in case submodels of
                     Inr models \<Rightarrow>
                       Inr (Model name inputs
                              (build_pyramid clone_model models features share_rpn))
                   | Inl s \<Rightarrow>
                       (if s = [] then Inr (Model name inputs [])
                        else Inl (ValueError ''not enough values to unpack'')))
           | _ \<Rightarrow> Inl (ValueError ''backbone_layers does not unpack into C3, C4, C5'')))"

section \<open>Looking up layers of a model\<close>

text \<open>
  The graph of a model is what can be reached from its outputs through the operands of
  the calls. \<open>nodes\<close> lists the tensors of that graph, each output before its
  operands. The layers of a nested model are not layers of the enclosing model, so the
  traversal does not enter a \<open>Submodel\<close>.
\<close>

primrec nodes :: "tensor \<Rightarrow> tensor list" where
  "nodes (Tensor l ins k) = Tensor l ins k # concat (map nodes ins)"

definition model_nodes :: "model \<Rightarrow> tensor list" where
  "model_nodes self = concat (map nodes (model_outputs self))"

text \<open>
  \<open>Model.get_layer(name)\<close> returns the layer of the model with that name and
  raises \<open>ValueError\<close> when there is none. Keras refuses to construct a model in
  which two layers share a name, so at most one layer matches; the definition takes the
  first match.
\<close>

definition get_layer :: "model \<Rightarrow> string \<Rightarrow> error + layer" where
  "get_layer self name =
     (case filter (\<lambda>l. layer_name l = Some name) (map producer (model_nodes self)) of
        [] \<Rightarrow> Inl (ValueError (''No such layer: '' @ name))
      | l # _ \<Rightarrow> Inr l)"

text \<open>
  \<open>layer.output\<close> is defined for a layer that has been called exactly once and
  raises \<open>AttributeError\<close> otherwise. The calls counted here are the calls that
  appear in the graph of the model.
\<close>

definition layer_output :: "model \<Rightarrow> layer \<Rightarrow> error + tensor" where
  "layer_output self l =
     (case remdups (map operands (filter (\<lambda>t. producer t = l) (model_nodes self))) of
        [ins] \<Rightarrow> Inr (Tensor l ins 0)
      | _ \<Rightarrow> Inl (AttributeError ''the layer does not have exactly one inbound node''))"

text \<open>\<open>model.get_layer(p_name).output\<close>.\<close>

definition get_layer_output :: "model \<Rightarrow> string \<Rightarrow> error + tensor" where
  "get_layer_output self name =
     (case get_layer self name of Inl e \<Rightarrow> Inl e | Inr l \<Rightarrow> layer_output self l)"

section \<open>The inference model (models/retinanet.py)\<close>

text \<open>
  Modelled from the spec: the layer \<open>FilterDetections\<close> is defined in
  \<open>keras_retinanet.layers\<close>, which is not among the sources. Called on
  \<open>[boxes, classification] + other\<close> it returns one tensor more than it was
  given: boxes, scores and labels, followed by one tensor for each of the other inputs
  (section 4.5 of the specification and the docstring of \<open>retinanet_bbox\<close>).
\<close>

definition filter_detections_call :: "layer \<Rightarrow> tensor list \<Rightarrow> tensor list" where
  "filter_detections_call l ins = map (Tensor l ins) [0..<length ins + 1]"

text \<open>
  The keyword arguments that \<open>retinanet_bbox\<close> forwards to \<open>RetinaNet\<close>
  when no model is given. \<open>None\<close> means that the keyword was not passed.
\<close>

record retinanet_kwargs =
  kw_inputs :: "tensor list option"
  kw_backbone_layers :: "tensor list option"
  kw_num_classes :: "int option"
  kw_num_anchors :: "int option"
  kw_create_pyramid_features :: "(tensor \<Rightarrow> tensor \<Rightarrow> tensor \<Rightarrow> tensor list) option"
  kw_submodels :: "submodels_arg option"
  kw_name :: "string option"
  kw_share_rpn :: "bool option"
  kw_class_feature_sizes :: "int list option"
  kw_regr_feature_sizes :: "int list option"
  kw_common_feature_sizes :: "int list option"
  kw_coordconv :: "bool option"

definition py_default :: "'a \<Rightarrow> 'a option \<Rightarrow> 'a" where
  "py_default d v = (case v of None \<Rightarrow> d | Some x \<Rightarrow> x)"

text \<open>
  \<open>RetinaNet(num_anchors=anchor_parameters.num_anchors(), **kwargs)\<close>: Python
  raises \<open>TypeError\<close> when \<open>kwargs\<close> holds \<open>num_anchors\<close> as well
  and when one of the three parameters without a default is missing.
\<close>

definition RetinaNet_from_kwargs ::
  "string \<Rightarrow> (model \<Rightarrow> model) \<Rightarrow> int \<Rightarrow> retinanet_kwargs \<Rightarrow> error + model" where
  "RetinaNet_from_kwargs image_data_format clone_model num_anchors kwargs =
     (if kw_num_anchors kwargs \<noteq> None
      then Inl (TypeError ''got multiple values for keyword argument num_anchors'')
      else
        (case (kw_inputs kwargs, kw_backbone_layers kwargs, kw_num_classes kwargs) of
           (Some inputs, Some backbone_layers, Some num_classes) \<Rightarrow>
             RetinaNet image_data_format clone_model inputs backbone_layers num_classes
               num_anchors (kw_create_pyramid_features kwargs)
               (py_default SubmodelsNone (kw_submodels kwargs))
               (py_default ''retinanet'' (kw_name kwargs))
               (py_default True (kw_share_rpn kwargs))
               (py_default [256, 256, 256, 256] (kw_class_feature_sizes kwargs))
               (py_default [256, 256, 256, 256] (kw_regr_feature_sizes kwargs))
               (py_default [256, 256, 256, 256] (kw_common_feature_sizes kwargs))
               (py_default False (kw_coordconv kwargs))
         | _ \<Rightarrow> Inl (TypeError ''missing required positional arguments'')))"

definition pyramid_layer_names :: "string list" where
  "pyramid_layer_names = [''P3'', ''P4'', ''P5'', ''P6'', ''P7'']"

text \<open>
  The body of \<open>retinanet_bbox\<close> once \<open>model\<close> is known. Every subscript and
  every lookup that can raise is a branch, in the order of the source.
\<close>

definition retinanet_bbox_on ::
  "model \<Rightarrow> AnchorParameters \<Rightarrow> bool \<Rightarrow> bool \<Rightarrow> string \<Rightarrow> real \<Rightarrow> int \<Rightarrow> real
     \<Rightarrow> error + model" where
  "retinanet_bbox_on model anchor_parameters nms class_specific_filter name score_threshold
       max_detections nms_threshold =
     (case collect (map (\<lambda>p_name. get_layer_output model p_name) pyramid_layer_names) of
        Inl e \<Rightarrow> Inl e
      | Inr features \<Rightarrow>
      (case build_anchors anchor_parameters features of
        Inl e \<Rightarrow> Inl e
      | Inr anchors \<Rightarrow>
      (case py_index (model_outputs model) 0 of
        Inl e \<Rightarrow> Inl e
      | Inr regression \<Rightarrow>
      (case py_index (model_outputs model) 1 of
        Inl e \<Rightarrow> Inl e
      | Inr classification \<Rightarrow>
      (let other = drop 2 (model_outputs model);
           boxes = call (Layer (Some ''boxes'') RegressBoxes) [anchors, regression]
       in case py_index (model_inputs model) 0 of
            Inl e \<Rightarrow> Inl e
          | Inr image_input \<Rightarrow>
          (let boxes = call (Layer (Some ''clipped_boxes'') ClipBoxes) [image_input, boxes];
               detections =
                 filter_detections_call
                   (Layer (Some ''filtered_detections'')
                      (FilterDetections nms class_specific_filter score_threshold
                         max_detections nms_threshold))
                   ([boxes, classification] @ other);
               outputs = detections
           in Inr (Model name (model_inputs model) outputs)))))))"

definition retinanet_bbox ::
  "string \<Rightarrow> (model \<Rightarrow> model) \<Rightarrow> model option \<Rightarrow> AnchorParameters \<Rightarrow> bool \<Rightarrow> bool \<Rightarrow> string
     \<Rightarrow> real \<Rightarrow> int \<Rightarrow> real \<Rightarrow> retinanet_kwargs \<Rightarrow> error + model" where
  "retinanet_bbox image_data_format clone_model model anchor_parameters nms
       class_specific_filter name score_threshold max_detections nms_threshold kwargs =
     (case (case model of
              None \<Rightarrow>
                RetinaNet_from_kwargs image_data_format clone_model
                  (AnchorParameters_num_anchors anchor_parameters) kwargs
            | Some model \<Rightarrow> Inr model) of
        Inl e \<Rightarrow> Inl e
      | Inr model \<Rightarrow>
          retinanet_bbox_on model anchor_parameters nms class_specific_filter name
            score_threshold max_detections nms_threshold)"

section \<open>The training script (bin/train.py)\<close>

text \<open>
  A Keras model object as the training script handles it: its graph, the calls of
  \<open>load_weights\<close> made on it (file, by_name, skip_mismatch) and the arguments of
  \<open>compile\<close>, if it has been compiled. A method that mutates the object returns
  the updated record.
\<close>

datatype loss = smooth_l1 | focal real real

datatype optimizer = adam real real

record keras_model =
  graph :: model
  loaded_weights :: "(string \<times> bool \<times> bool) list"
  compiled :: "((string \<times> loss) list \<times> optimizer) option"

definition constructed :: "model \<Rightarrow> keras_model" where
  "constructed g = \<lparr> graph = g, loaded_weights = [], compiled = None \<rparr>"

definition model_with_weights :: "keras_model \<Rightarrow> string option \<Rightarrow> bool \<Rightarrow> keras_model" where
  "model_with_weights model weights skip_mismatch =
     (case weights of
        None \<Rightarrow> model
      | Some file \<Rightarrow>
          model\<lparr> loaded_weights := loaded_weights model @ [(file, True, skip_mismatch)] \<rparr>)"

text \<open>
  One call of \<open>backbone_retinanet\<close>: the positional argument, the modifier and the
  keyword arguments, where \<open>None\<close> means that the keyword was not passed. The
  function itself belongs to the backbone module and is a parameter of
  \<open>create_models\<close>.
\<close>

record backbone_call =
  call_num_classes :: int
  call_modifier :: "(model \<Rightarrow> model) option"
  call_submodels :: "submodels_arg option"
  call_share_rpn :: "bool option"
  call_class_feature_sizes :: "int list option"
  call_regr_feature_sizes :: "int list option"
  call_common_feature_sizes :: "int list option"
  call_coordconv :: "bool option"

definition no_kwargs :: retinanet_kwargs where
  "no_kwargs =
     \<lparr> kw_inputs = None, kw_backbone_layers = None, kw_num_classes = None,
       kw_num_anchors = None, kw_create_pyramid_features = None, kw_submodels = None,
       kw_name = None, kw_share_rpn = None, kw_class_feature_sizes = None,
       kw_regr_feature_sizes = None, kw_common_feature_sizes = None,
       kw_coordconv = None \<rparr>"

text \<open>
  \<open>create_models\<close>. The first four parameters are ambient: the image data format
  of Keras, \<open>keras.models.clone_model\<close>, \<open>utils.model.freeze\<close> and
  \<open>keras.utils.multi_gpu_model\<close>. In the branch for at most one GPU
  \<open>training_model\<close> and \<open>model\<close> are one object, so compiling the first
  compiles the second.
\<close>

definition create_models ::
  "string \<Rightarrow> (model \<Rightarrow> model) \<Rightarrow> (model \<Rightarrow> model) \<Rightarrow> (model \<Rightarrow> int \<Rightarrow> model)
     \<Rightarrow> (backbone_call \<Rightarrow> error + model) \<Rightarrow> int \<Rightarrow> string option \<Rightarrow> int \<Rightarrow> bool \<Rightarrow> bool
     \<Rightarrow> real \<Rightarrow> real \<Rightarrow> int \<Rightarrow> real \<Rightarrow> real \<Rightarrow> real \<Rightarrow> bool \<Rightarrow> int list \<Rightarrow> int list
     \<Rightarrow> int list \<Rightarrow> bool \<Rightarrow> submodels_arg
     \<Rightarrow> error + (keras_model \<times> keras_model \<times> model)" where
  "create_models image_data_format clone_model freeze_model multi_gpu_model
       backbone_retinanet num_classes weights multi_gpu skip_mismatch freeze_backbone lr
       score_threshold max_detections nms_threshold alpha gamma share_rpn
       class_feature_sizes regr_feature_sizes common_feature_sizes coordconv submodels =
     (let modifier = (if freeze_backbone then Some freeze_model else None);
          compile = (\<lambda>training_model.
            training_model\<lparr> compiled :=
              Some ([(''regression'', smooth_l1), (''classification'', focal alpha gamma)],
                    adam lr (1 / 1000)) \<rparr>)
      in case (if multi_gpu > 1
               then (case backbone_retinanet
                            \<lparr> call_num_classes = num_classes, call_modifier = modifier,
                              call_submodels = None, call_share_rpn = None,
                              call_class_feature_sizes = None,
                              call_regr_feature_sizes = None,
                              call_common_feature_sizes = None,
                              call_coordconv = None \<rparr> of
                       Inl e \<Rightarrow> Inl e
                     | Inr g \<Rightarrow>
                         (let model = model_with_weights (constructed g) weights skip_mismatch;
                              training_model =
                                \<lparr> graph = multi_gpu_model (graph model) multi_gpu,
                                  loaded_weights = loaded_weights model,
                                  compiled = None \<rparr>
                          in Inr (model, training_model, False)))
               else (case backbone_retinanet
                            \<lparr> call_num_classes = num_classes, call_modifier = modifier,
                              call_submodels = Some submodels,
                              call_share_rpn = Some share_rpn,
                              call_class_feature_sizes = Some class_feature_sizes,
                              call_regr_feature_sizes = Some regr_feature_sizes,
                              call_common_feature_sizes = Some common_feature_sizes,
                              call_coordconv = Some coordconv \<rparr> of
                       Inl e \<Rightarrow> Inl e
                     | Inr retinanet \<Rightarrow>
                         (let model =
                                model_with_weights (constructed retinanet) weights skip_mismatch;
                              training_model = model
                          in Inr (model, training_model, True)))) of
           Inl e \<Rightarrow> Inl e
         | Inr (model, training_model, same_object) \<Rightarrow>
             (case retinanet_bbox image_data_format clone_model (Some (graph model))
                     AnchorParameters_default True True ''retinanet-bbox'' score_threshold
                     max_detections nms_threshold no_kwargs of
                Inl e \<Rightarrow> Inl e
              | Inr prediction_model \<Rightarrow>
                  (let training_model = compile training_model;
                       model = (if same_object then training_model else model)
                   in Inr (model, training_model, prediction_model))))"

text \<open>
  A stand-in for \<open>backbone.retinanet\<close>, which is not among the sources: the
  backbone modules of the repository build their network, take the tensors
  \<open>C3, C4, C5\<close> from it and pass the keyword arguments they receive on to
  \<open>RetinaNet\<close>, whose defaults apply to the keywords that were not passed. The
  stand-in is given the input and the three backbone tensors and leaves the modifier,
  which acts on the backbone network alone, aside.
\<close>

definition forwarding_backbone ::
  "string \<Rightarrow> (model \<Rightarrow> model) \<Rightarrow> tensor list \<Rightarrow> tensor list \<Rightarrow> backbone_call
     \<Rightarrow> error + model" where
  "forwarding_backbone image_data_format clone_model inputs backbone_layers c =
     RetinaNet image_data_format clone_model inputs backbone_layers (call_num_classes c) 9
       None
       (py_default SubmodelsNone (call_submodels c))
       ''retinanet''
       (py_default True (call_share_rpn c))
       (py_default [256, 256, 256, 256] (call_class_feature_sizes c))
       (py_default [256, 256, 256, 256] (call_regr_feature_sizes c))
       (py_default [256, 256, 256, 256] (call_common_feature_sizes c))
       (py_default False (call_coordconv c))"

section \<open>Observing a graph\<close>

text \<open>
  \<open>chain t\<close> lists the layers met when walking from the tensor \<open>t\<close>
  towards the input for as long as every call has a single operand; the layer that
  produced \<open>t\<close> comes first.
\<close>

fun chain :: "tensor \<Rightarrow> layer list" where
  "chain (Tensor l [x] k) = l # chain x"
| "chain (Tensor l ins k) = [l]"

definition output_chains :: "model \<Rightarrow> layer list list" where
  "output_chains m = map chain (model_outputs m)"

text \<open>The layers that the loop over \<open>feature_sizes\<close> creates, first to last.\<close>

definition stack_layers :: "string \<Rightarrow> string option \<Rightarrow> int list \<Rightarrow> layer list" where
  "stack_layers prefix activation feature_sizes =
     map (\<lambda>(i, fs). Layer (Some (prefix @ str i))
                       (Conv2D fs 3 1 ''same'' activation (RandomNormal 0 (1 / 100)) Zeros))
         (enumerate 0 feature_sizes)"

text \<open>
  All layers of a graph, those inside nested models included (unlike \<open>nodes\<close>,
  which stays in the enclosing model).
\<close>

primrec deep_layers :: "tensor \<Rightarrow> layer list"
  and layer_closure :: "layer \<Rightarrow> layer list"
  and model_closure :: "model \<Rightarrow> layer list" where
  "deep_layers (Tensor l ins k) = layer_closure l @ concat (map deep_layers ins)"
| "layer_closure (Layer name config) = [Layer name config]"
| "layer_closure (Submodel m) = Submodel m # model_closure m"
| "model_closure (Model name inputs outputs) = concat (map deep_layers outputs)"

fun is_coordinate_channel :: "layer \<Rightarrow> bool" where
  "is_coordinate_channel (Layer name CoordinateChannel2D) = True"
| "is_coordinate_channel l = False"

definition uses_coordconv :: "model \<Rightarrow> bool" where
  "uses_coordconv m = list_ex is_coordinate_channel (model_closure m)"

fun conv_filters :: "layer \<Rightarrow> int option" where
  "conv_filters (Layer name (Conv2D filters kernel_size stride padding activation
       kernel_initializer bias_initializer)) = Some filters"
| "conv_filters l = None"


text \<open>
  For a concatenation, the operands of the concatenated calls, one list per concatenated
  tensor and in the order of the concatenation.
\<close>

definition level_features :: "tensor \<Rightarrow> tensor list list" where
  "level_features t = map operands (operands t)"












subsection \<open>A small backbone to run the constructors on\<close>








section \<open>Properties\<close>

subsection \<open>Auxiliary facts about the loops\<close>

lemma unshared_loop:
  "fold (\<lambda>f (inputs, new).
           (inputs @ [call (Submodel (if new then model else clone_model model)) [f]], new))
        features (acc, True)
   = (acc @ map (\<lambda>f. call (Submodel model) [f]) features, True)"
  by (induction features arbitrary: acc) simp_all

lemma chain_fold_conv:
  "chain (fold (\<lambda>(i, fs) outputs.
                  call (Layer (Some (prefix @ str i))
                          (Conv2D fs 3 1 ''same'' activation (RandomNormal 0 (1 / 100)) Zeros))
                    [outputs])
               (enumerate n feature_sizes) x)
   = rev (map (\<lambda>(i, fs). Layer (Some (prefix @ str i))
                             (Conv2D fs 3 1 ''same'' activation (RandomNormal 0 (1 / 100)) Zeros))
              (enumerate n feature_sizes)) @ chain x"
  by (induction feature_sizes arbitrary: n x) (simp_all add: call_def)

lemma chain_conv_stack:
  "chain (conv_stack prefix activation feature_sizes x) =
     rev (stack_layers prefix activation feature_sizes) @ chain x"
  by (simp add: conv_stack_def stack_layers_def chain_fold_conv)

lemma deep_fold_conv:
  "deep_layers (fold (\<lambda>(i, fs) outputs.
                        call (Layer (Some (prefix @ str i))
                                (Conv2D fs 3 1 ''same'' activation (RandomNormal 0 (1 / 100)) Zeros))
                          [outputs])
                     (enumerate n feature_sizes) x)
   = rev (map (\<lambda>(i, fs). Layer (Some (prefix @ str i))
                             (Conv2D fs 3 1 ''same'' activation (RandomNormal 0 (1 / 100)) Zeros))
              (enumerate n feature_sizes)) @ deep_layers x"
  by (induction feature_sizes arbitrary: n x) (simp_all add: call_def)

lemma deep_conv_stack:
  "deep_layers (conv_stack prefix activation feature_sizes x) =
     rev (stack_layers prefix activation feature_sizes) @ deep_layers x"
  by (simp add: conv_stack_def stack_layers_def deep_fold_conv)

lemma stack_layers_no_coordinate_channel:
  "\<not> list_ex is_coordinate_channel (stack_layers prefix activation feature_sizes)"
  by (auto simp: stack_layers_def list_ex_iff in_set_enumerate_eq)

lemma uses_coordconv_CommonPFModel:
  "uses_coordconv (CommonPFModel num_anchors pyramid_feature_size feature_sizes name
     activation coordconv) = coordconv"
  by (simp add: Let_def uses_coordconv_def CommonPFModel_def call_def Input_def
      deep_conv_stack stack_layers_no_coordinate_channel)

lemma uses_coordconv_RegrModel:
  "uses_coordconv (RegrModel num_anchors pyramid_feature_size feature_sizes name coordconv
     activation) = coordconv"
  by (simp add: Let_def uses_coordconv_def RegrModel_def call_def Input_def
      deep_conv_stack stack_layers_no_coordinate_channel)

lemma uses_coordconv_ClassModel:
  "uses_coordconv (ClassModel num_classes num_anchors pyramid_feature_size prior_probability
     feature_sizes name activation final_activation coordconv) = coordconv"
  by (simp add: Let_def uses_coordconv_def ClassModel_def call_def Input_def
      deep_conv_stack stack_layers_no_coordinate_channel)

subsection \<open>Auxiliary facts about the layer lookup and the anchors\<close>









lemma length_create_pyramid_features [simp]:
  "length (create_pyramid_features C3 C4 C5 feature_size) = 5"
  by (simp add: create_pyramid_features_def Let_def)


lemma collect_map_Inr [simp]: "collect (map Inr xs) = Inr xs"
  by (induction xs) simp_all







subsection \<open>The weight-sharing switch\<close>

text \<open>
  Claim C1. With \<open>share = False\<close> every pyramid level should get a head of its own,
  cloned from the given one. The code does not do that: the flag \<open>new\<close> is never
  cleared, so the loop never calls \<open>clone_model\<close>, whatever that function
  returns, and builds the very tensor that \<open>share = True\<close> builds. Every operand
  of the concatenation along axis 1 is produced by the one given head.
\<close>

theorem build_model_pyramid_unshared_reuses_model:
  "build_model_pyramid clone_model name model features False =
     build_model_pyramid clone_model name model features True
   \<and> build_model_pyramid clone_model name model features False =
     call (Layer (Some name) (Concatenate 1)) (map (\<lambda>f. call (Submodel model) [f]) features)
   \<and> map producer (operands (build_model_pyramid clone_model name model features False)) =
     replicate (length features) (Submodel model)"
proof -
  have unshared:
    "build_model_pyramid clone_model name model features False =
       call (Layer (Some name) (Concatenate 1)) (map (\<lambda>f. call (Submodel model) [f]) features)"
    by (simp add: build_model_pyramid_def unshared_loop)
  show ?thesis
    unfolding unshared
    by (simp add: build_model_pyramid_def call_def comp_def map_replicate_const)
qed

subsection \<open>The feature pyramid\<close>

text \<open>
  Claim C6. The default pyramid builder turns \<open>C3, C4, C5\<close> into the five levels
  \<open>[P3, P4, P5, P6, P7]\<close>. Each level is produced by a convolution with
  \<open>feature_size\<close> filters. \<open>P5\<close> is the 3x3 refinement of the 1x1 reduction
  of \<open>C5\<close>; \<open>P4\<close> and \<open>P3\<close> are the 3x3 refinement of the sum of the
  1x1 reduction of the backbone map and the level above (before its refinement),
  upsampled to the backbone map; \<open>P6\<close> is a 3x3 convolution with stride 2 on
  \<open>C5\<close>; \<open>P7\<close> is a 3x3 convolution with stride 2 on the ReLU of
  \<open>P6\<close>.
\<close>

theorem create_pyramid_features_levels:
  "create_pyramid_features C3 C4 C5 feature_size =
     (let conv = (\<lambda>name kernel_size stride x.
                    call (Layer (Some name)
                            (Conv2D feature_size kernel_size stride ''same'' None
                               GlorotUniform Zeros)) [x]);
          upsample_like = (\<lambda>name x target. call (Layer (Some name) UpsampleLike) [x, target]);
          add = (\<lambda>name x y. call (Layer (Some name) Add) [x, y]);
          relu = (\<lambda>name x. call (Layer (Some name) (Activation ''relu'')) [x]);
          reduced5 = conv ''C5_reduced'' 1 1 C5;
          merged4 = add ''P4_merged'' (upsample_like ''P5_upsampled'' reduced5 C4)
                      (conv ''C4_reduced'' 1 1 C4);
          merged3 = add ''P3_merged'' (upsample_like ''P4_upsampled'' merged4 C3)
                      (conv ''C3_reduced'' 1 1 C3);
          P6 = conv ''P6'' 3 2 C5
      in [conv ''P3'' 3 1 merged3,
          conv ''P4'' 3 1 merged4,
          conv ''P5'' 3 1 reduced5,
          P6,
          conv ''P7'' 3 2 (relu ''C6_relu'' P6)])
   \<and> map (layer_name \<circ> producer) (create_pyramid_features C3 C4 C5 feature_size) =
       map Some pyramid_layer_names
   \<and> map (conv_filters \<circ> producer) (create_pyramid_features C3 C4 C5 feature_size) =
       replicate 5 (Some feature_size)"
  by (simp add: create_pyramid_features_def Let_def call_def pyramid_layer_names_def
      numeral_eq_Suc)

subsection \<open>The prediction heads\<close>

text \<open>
  Claim C7, as stated, fails: \<open>ClassModel\<close> has the switch
  \<open>final_activation\<close>, and with \<open>final_activation = False\<close> the output of
  the head is the reshaped convolution, with no sigmoid.
\<close>

theorem ClassModel_without_final_activation:
  "output_chains (ClassModel 2 9 256 (1 / 100) [256, 256] ''classification_submodel''
                    ''relu'' False False) =
     [[Layer (Some ''pyramid_classification_reshape'') (Reshape [- 1, 2]),
       Layer (Some ''pyramid_classification'')
         (Conv2D 18 3 1 ''same'' None Zeros (PriorProbability (1 / 100))),
       Layer (Some ''pyramid_classification_1'')
         (Conv2D 256 3 1 ''same'' (Some ''relu'') (RandomNormal 0 (1 / 100)) Zeros),
       Layer (Some ''pyramid_classification_0'')
         (Conv2D 256 3 1 ''same'' (Some ''relu'') (RandomNormal 0 (1 / 100)) Zeros),
       Layer None (InputLayer [None, None, Some 256])]]"
  by (simp add: output_chains_def ClassModel_def Let_def call_def Input_def conv_stack_def
      enumerate_eq_zip str.simps upt_rec [of 0] upt_rec [of 1] upt_rec [of 2])

text \<open>
  Claim C7, amended. Both classification heads end in a 3x3 convolution with padding
  \<open>same\<close>, \<open>num_classes * num_anchors\<close> filters, a zero kernel initializer
  and the prior-probability bias initializer, followed by a reshape to
  \<open>(-1, num_classes)\<close> (after a permutation of the axes when the data format is
  channels_first). \<open>default_classification_model\<close> always applies a sigmoid to the
  reshaped tensor; \<open>ClassModel\<close> applies it exactly when \<open>final_activation\<close>
  holds, which is what \<open>joint_submodels\<close> passes. The prior probability that
  \<open>default_submodels\<close> and \<open>joint_submodels\<close> pass is 0.01.
\<close>

theorem classification_heads_final_layers:
  "output_chains (default_classification_model image_data_format num_classes num_anchors
       pyramid_feature_size prior_probability feature_sizes name) =
     [[Layer (Some ''pyramid_classification_sigmoid'') (Activation ''sigmoid''),
       Layer (Some ''pyramid_classification_reshape'') (Reshape [- 1, num_classes])]
      @ (if image_data_format = ''channels_first''
         then [Layer (Some ''pyramid_classification_permute'') (Permute [2, 3, 1])] else [])
      @ [Layer (Some ''pyramid_classification'')
           (Conv2D (num_classes * num_anchors) 3 1 ''same'' None Zeros
              (PriorProbability prior_probability))]
      @ rev (stack_layers ''pyramid_classification_'' (Some ''relu'') feature_sizes)
      @ [Layer None (InputLayer (if image_data_format = ''channels_first''
                                 then [Some pyramid_feature_size, None, None]
                                 else [None, None, Some pyramid_feature_size]))]]
   \<and> output_chains (ClassModel num_classes num_anchors pyramid_feature_size
       prior_probability feature_sizes name activation final_activation coordconv) =
     [(if final_activation
       then [Layer (Some ''pyramid_classification_sigmoid'') (Activation ''sigmoid'')] else [])
      @ [Layer (Some ''pyramid_classification_reshape'') (Reshape [- 1, num_classes]),
         Layer (Some ''pyramid_classification'')
           (Conv2D (num_classes * num_anchors) 3 1 ''same'' None Zeros
              (PriorProbability prior_probability))]
      @ rev (stack_layers ''pyramid_classification_'' (Some activation) feature_sizes)
      @ (if coordconv then [Layer None CoordinateChannel2D] else [])
      @ [Layer None (InputLayer [None, None, Some pyramid_feature_size])]]
   \<and> map snd (default_submodels image_data_format num_classes num_anchors
                  class_feature_sizes regr_feature_sizes) ! 1 =
     default_classification_model image_data_format num_classes num_anchors 256 (1 / 100)
       class_feature_sizes ''classification_submodel''
   \<and> (case joint_submodels num_classes num_anchors pyramid_feature_size
              (c # common_feature_sizes) class_feature_sizes regr_feature_sizes coordconv of
         Inl e \<Rightarrow> False
       | Inr ms \<Rightarrow>
           map (map (\<lambda>t. producer t) \<circ> model_outputs \<circ> snd) ms ! 1 =
             [Submodel (ClassModel num_classes num_anchors
                          (last (c # common_feature_sizes)) (1 / 100) class_feature_sizes
                          ''classification_submodel'' ''relu'' True False)])"
  by (simp add: output_chains_def default_classification_model_def ClassModel_def Let_def
      call_def Input_def chain_conv_stack default_submodels_def joint_submodels_def
      py_last_def)

text \<open>
  Claim C8. Both regression heads end in a 3x3 convolution with padding \<open>same\<close>
  and \<open>4 * num_anchors\<close> filters that has no activation, and the only layers
  after it are the reshape to \<open>(-1, 4)\<close> and, for the data format channels_first,
  the permutation of the axes before the reshape: no activation follows the convolution.
\<close>

theorem regression_heads_final_layers:
  "output_chains (default_regression_model image_data_format num_anchors
       pyramid_feature_size feature_sizes name) =
     [[Layer (Some ''pyramid_regression_reshape'') (Reshape [- 1, 4])]
      @ (if image_data_format = ''channels_first''
         then [Layer (Some ''pyramid_regression_permute'') (Permute [2, 3, 1])] else [])
      @ [Layer (Some ''pyramid_regression'')
           (Conv2D (num_anchors * 4) 3 1 ''same'' None (RandomNormal 0 (1 / 100)) Zeros)]
      @ rev (stack_layers ''pyramid_regression_'' (Some ''relu'') feature_sizes)
      @ [Layer None (InputLayer (if image_data_format = ''channels_first''
                                 then [Some pyramid_feature_size, None, None]
                                 else [None, None, Some pyramid_feature_size]))]]
   \<and> output_chains (RegrModel num_anchors pyramid_feature_size feature_sizes name coordconv
       activation) =
     [[Layer (Some ''pyramid_regression_reshape'') (Reshape [- 1, 4]),
       Layer (Some ''pyramid_regression'')
         (Conv2D (num_anchors * 4) 3 1 ''same'' None (RandomNormal 0 (1 / 100)) Zeros)]
      @ rev (stack_layers ''pyramid_regression_'' (Some activation) feature_sizes)
      @ (if coordconv then [Layer None CoordinateChannel2D] else [])
      @ [Layer None (InputLayer [None, None, Some pyramid_feature_size])]]"
  by (simp add: output_chains_def default_regression_model_def RegrModel_def Let_def
      call_def Input_def chain_conv_stack)

lemma uses_coordconv_nested:
  "uses_coordconv (Model name inputs [call (Submodel a) [call (Submodel b) [Input shape]]]) =
     (uses_coordconv a \<or> uses_coordconv b)"
  by (simp add: uses_coordconv_def call_def Input_def)

text \<open>
  Claim C10. When \<open>joint_submodels\<close> returns (its list of common feature sizes is
  not empty), the regression branch and the classification branch are built with
  \<open>coordconv = False\<close> whatever the argument \<open>coordconv\<close> is: neither
  branch contains a coordinate-channel layer. The argument reaches the common trunk only,
  which contains the layer exactly when \<open>coordconv\<close> holds; the two returned
  submodels contain it only through the trunk that they both start with.
\<close>

theorem joint_submodels_coordconv_in_trunk_only:
  assumes "joint_submodels num_classes num_anchors pyramid_feature_size common_feature_sizes
             class_feature_sizes regr_feature_sizes coordconv = Inr ms"
  shows "ms =
     [(''regression'',
        Model ''regr_model'' [Input [None, None, Some pyramid_feature_size]]
          [call (Submodel (RegrModel num_anchors (last common_feature_sizes) regr_feature_sizes
                             ''regression_submodel'' False ''relu''))
             [call (Submodel (CommonPFModel num_classes 256 common_feature_sizes
                                ''common_submodel'' ''relu'' coordconv))
                [Input [None, None, Some pyramid_feature_size]]]]),
      (''classification'',
        Model ''class_model'' [Input [None, None, Some pyramid_feature_size]]
          [call (Submodel (ClassModel num_classes num_anchors (last common_feature_sizes)
                             (1 / 100) class_feature_sizes ''classification_submodel''
                             ''relu'' True False))
             [call (Submodel (CommonPFModel num_classes 256 common_feature_sizes
                                ''common_submodel'' ''relu'' coordconv))
                [Input [None, None, Some pyramid_feature_size]]]])]
   \<and> \<not> uses_coordconv (RegrModel num_anchors (last common_feature_sizes) regr_feature_sizes
                          ''regression_submodel'' False ''relu'')
   \<and> \<not> uses_coordconv (ClassModel num_classes num_anchors (last common_feature_sizes)
                          (1 / 100) class_feature_sizes ''classification_submodel''
                          ''relu'' True False)
   \<and> uses_coordconv (CommonPFModel num_classes 256 common_feature_sizes
                        ''common_submodel'' ''relu'' coordconv) = coordconv
   \<and> map (uses_coordconv \<circ> snd) ms = [coordconv, coordconv]"
proof -
  have ne: "common_feature_sizes \<noteq> []"
    using assms by (auto simp: joint_submodels_def py_last_def)
  then have last: "py_last common_feature_sizes = Inr (last common_feature_sizes)"
    by (cases common_feature_sizes) (simp_all add: py_last_def)
  have ms: "Inr ms = joint_submodels num_classes num_anchors pyramid_feature_size
      common_feature_sizes class_feature_sizes regr_feature_sizes coordconv"
    using assms by simp
  show ?thesis
    using ms unfolding joint_submodels_def last
    by (simp add: Let_def uses_coordconv_RegrModel uses_coordconv_ClassModel
        uses_coordconv_CommonPFModel uses_coordconv_nested)
qed

theorem joint_submodels_coordconv_in_trunk_only_witness:
  "joint_submodels 2 9 256 [128] [256] [256] True =
     Inr [(''regression'',
            Model ''regr_model'' [Input [None, None, Some 256]]
              [call (Submodel (RegrModel 9 128 [256] ''regression_submodel'' False ''relu''))
                 [call (Submodel (CommonPFModel 2 256 [128] ''common_submodel'' ''relu'' True))
                    [Input [None, None, Some 256]]]]),
          (''classification'',
            Model ''class_model'' [Input [None, None, Some 256]]
              [call (Submodel (ClassModel 2 9 128 (1 / 100) [256] ''classification_submodel''
                                 ''relu'' True False))
                 [call (Submodel (CommonPFModel 2 256 [128] ''common_submodel'' ''relu'' True))
                    [Input [None, None, Some 256]]]])]
   \<and> \<not> uses_coordconv (RegrModel 9 128 [256] ''regression_submodel'' False ''relu'')
   \<and> \<not> uses_coordconv (ClassModel 2 9 128 (1 / 100) [256] ''classification_submodel''
                          ''relu'' True False)
   \<and> uses_coordconv (CommonPFModel 2 256 [128] ''common_submodel'' ''relu'' True)"
proof -
  have run: "joint_submodels 2 9 256 [128] [256] [256] True =
     Inr [(''regression'',
            Model ''regr_model'' [Input [None, None, Some 256]]
              [call (Submodel (RegrModel 9 128 [256] ''regression_submodel'' False ''relu''))
                 [call (Submodel (CommonPFModel 2 256 [128] ''common_submodel'' ''relu'' True))
                    [Input [None, None, Some 256]]]]),
          (''classification'',
            Model ''class_model'' [Input [None, None, Some 256]]
              [call (Submodel (ClassModel 2 9 128 (1 / 100) [256] ''classification_submodel''
                                 ''relu'' True False))
                 [call (Submodel (CommonPFModel 2 256 [128] ''common_submodel'' ''relu'' True))
                    [Input [None, None, Some 256]]]])]"
    by (simp add: joint_submodels_def py_last_def Let_def)
  have "last [128 :: int] = 128"
    by simp
  with joint_submodels_coordconv_in_trunk_only [OF run] run show ?thesis
    by (simp only: simp_thms)
qed

subsection \<open>The inference model\<close>




lemma model_name_heads [simp]:
  "model_name (default_regression_model idf na pfs fss name) = name"
  "model_name (default_classification_model idf nc na pfs pp fss name) = name"
  by (simp_all add: default_regression_model_def default_classification_model_def Let_def)



lemma nodes_self: "t \<in> set (nodes t)"
  by (cases t) simp









lemma length_five: "length xs = 5 \<Longrightarrow> \<exists>a b c d e. xs = [a, b, c, d, e]"
  by (auto simp: numeral_eq_Suc length_Suc_conv)


























end
